theory Spec2Isabelle
  imports Complex_Main
begin

section \<open>Numbers, vectors and exceptions\<close>

text \<open>
  The service computes with Python floats and numpy arrays. Floats are modelled as real
  numbers extended by the one special value the code can produce and then compare against,
  \<open>NaN\<close> (the cosine distance of a zero vector is \<open>0/0\<close>, the mean of no scores is
  \<open>nan\<close>). Rounding error, infinities and overflow are not modelled: every finite float
  stands for the real number it approximates. Comparisons with \<open>NaN\<close> are false, as in
  IEEE arithmetic, and arithmetic on \<open>NaN\<close> yields \<open>NaN\<close>.
\<close>

datatype pyfloat = NaN | Fl real

text \<open>The exceptions that the modelled code raises or catches.\<close>

datatype error = ValueError | RuntimeError | ZeroDivisionError

type_synonym embedding = "real list"

fun pf_lt :: "pyfloat \<Rightarrow> pyfloat \<Rightarrow> bool" where
  "pf_lt (Fl a) (Fl b) = (a < b)"
| "pf_lt _ _ = False"

fun pf_gt :: "pyfloat \<Rightarrow> pyfloat \<Rightarrow> bool" where
  "pf_gt (Fl a) (Fl b) = (a > b)"
| "pf_gt _ _ = False"

fun pf_ge :: "pyfloat \<Rightarrow> pyfloat \<Rightarrow> bool" where
  "pf_ge (Fl a) (Fl b) = (a \<ge> b)"
| "pf_ge _ _ = False"

fun pf_sub :: "pyfloat \<Rightarrow> pyfloat \<Rightarrow> pyfloat" where
  "pf_sub (Fl a) (Fl b) = Fl (a - b)"
| "pf_sub _ _ = NaN"

fun pf_mul :: "pyfloat \<Rightarrow> pyfloat \<Rightarrow> pyfloat" where
  "pf_mul (Fl a) (Fl b) = Fl (a * b)"
| "pf_mul _ _ = NaN"

text \<open>
  \<open>reals xs\<close> is the list of the numbers of \<open>xs\<close> when none of them is \<open>NaN\<close>.
\<close>

fun reals :: "pyfloat list \<Rightarrow> real list option" where
  "reals [] = Some []"
| "reals (NaN # xs) = None"
| "reals (Fl a # xs) = (case reals xs of None \<Rightarrow> None | Some rs \<Rightarrow> Some (a # rs))"

subsection \<open>Python built-ins\<close>



text \<open>
  \<open>round(x, 2)\<close>: the nearest multiple of \<open>1/100\<close>, a tie going to the even neighbour.
\<close>

definition round_half_even :: "real \<Rightarrow> int" where
  "round_half_even y =
     (let f = \<lfloor>y\<rfloor> in
      if y - of_int f < 1 / 2 then f
      else if y - of_int f > 1 / 2 then f + 1
      else if even f then f else f + 1)"

fun py_round2 :: "pyfloat \<Rightarrow> pyfloat" where
  "py_round2 NaN = NaN"
| "py_round2 (Fl x) = Fl (of_int (round_half_even (x * 100)) / 100)"

subsection \<open>numpy reductions\<close>

text \<open>
  \<open>np.mean\<close> of an empty array is \<open>nan\<close> (with a warning, no exception);
  \<open>np.max\<close> and \<open>np.min\<close> of an empty array raise \<open>ValueError\<close>; all of them
  propagate \<open>NaN\<close>. \<open>np.std\<close> is the population standard deviation.
\<close>

definition mean :: "real list \<Rightarrow> real" where
  "mean rs = sum_list rs / real (length rs)"

definition np_mean :: "pyfloat list \<Rightarrow> pyfloat" where
  "np_mean xs =
     (case reals xs of
        None \<Rightarrow> NaN
      | Some rs \<Rightarrow> if rs = [] then NaN else Fl (mean rs))"


definition np_max :: "pyfloat list \<Rightarrow> error + pyfloat" where
  "np_max xs =
     (if xs = [] then Inl ValueError
      else case reals xs of
             None \<Rightarrow> Inr NaN
           | Some rs \<Rightarrow> Inr (Fl (fold max (tl rs) (hd rs))))"

definition np_min :: "pyfloat list \<Rightarrow> error + pyfloat" where
  "np_min xs =
     (if xs = [] then Inl ValueError
      else case reals xs of
             None \<Rightarrow> Inr NaN
           | Some rs \<Rightarrow> Inr (Fl (fold min (tl rs) (hd rs))))"

subsection \<open>scipy distances\<close>

text \<open>
  \<open>scipy.spatial.distance.cosine(u, v)\<close> is \<open>1 - u\<cdot>v / sqrt((u\<cdot>u) (v\<cdot>v))\<close>; the dot
  product of one-dimensional arrays of different lengths raises \<open>ValueError\<close>, and a
  zero vector makes the quotient \<open>0/0\<close>, that is \<open>nan\<close>.
  \<open>scipy.spatial.distance.euclidean(u, v)\<close> is the 2-norm of \<open>u - v\<close>, where the
  subtraction broadcasts an array of length one and raises \<open>ValueError\<close> on any other
  mismatch of lengths.
\<close>

definition np_dot :: "real list \<Rightarrow> real list \<Rightarrow> real" where
  "np_dot u v = sum_list (map2 (*) u v)"

definition cosine :: "embedding \<Rightarrow> embedding \<Rightarrow> error + pyfloat" where
  "cosine u v =
     (if length u \<noteq> length v then Inl ValueError
      else
        let uv = np_dot u v; uu = np_dot u u; vv = np_dot v v
        in if sqrt (uu * vv) = 0 then Inr NaN
           else Inr (Fl (1 - uv / sqrt (uu * vv))))"

definition np_subtract :: "real list \<Rightarrow> real list \<Rightarrow> error + real list" where
  "np_subtract u v =
     (if length u = length v then Inr (map2 (-) u v)
      else if length u = 1 then Inr (map (\<lambda>y. hd u - y) v)
      else if length v = 1 then Inr (map (\<lambda>x. x - hd v) u)
      else Inl ValueError)"

definition norm2 :: "real list \<Rightarrow> real" where
  "norm2 d = sqrt (sum_list (map (\<lambda>x. x\<^sup>2) d))"

definition euclidean :: "embedding \<Rightarrow> embedding \<Rightarrow> error + real" where
  "euclidean u v =
     (case np_subtract u v of
        Inl e \<Rightarrow> Inl e
      | Inr d \<Rightarrow> Inr (norm2 d))"

section \<open>Similarity of two embeddings\<close>

definition calculate_similarity_cosine :: "embedding \<Rightarrow> embedding \<Rightarrow> error + pyfloat" where
  "calculate_similarity_cosine embedding1 embedding2 =
     (case cosine embedding1 embedding2 of
        Inl e \<Rightarrow> Inl e
      | Inr d \<Rightarrow> Inr (pf_sub (Fl 1) d))"

definition calculate_similarity_euclidean :: "embedding \<Rightarrow> embedding \<Rightarrow> error + pyfloat" where
  "calculate_similarity_euclidean embedding1 embedding2 =
     (case euclidean embedding1 embedding2 of
        Inl e \<Rightarrow> Inl e
      | Inr distance \<Rightarrow> Inr (Fl (1 / (1 + distance))))"

definition calculate_similarity :: "embedding \<Rightarrow> embedding \<Rightarrow> string \<Rightarrow> error + pyfloat" where
  "calculate_similarity embedding1 embedding2 method =
     (if method = ''cosine'' then calculate_similarity_cosine embedding1 embedding2
      else if method = ''euclidean'' then calculate_similarity_euclidean embedding1 embedding2
      else Inl ValueError)"

section \<open>The voice recognition service\<close>

text \<open>
  The neural encoder is outside the verified core: \<open>extract_embedding\<close> is a parameter of
  each operation, a function from the path of an audio file to the embedding it yields,
  or to the \<open>RuntimeError\<close> that the method raises when loading or encoding fails.

  Python dictionaries with a fixed set of keys are records; a key that a dictionary may
  lack is an option-valued field. Field names carry a prefix per record (\<open>u_\<close> user,
  \<open>s_\<close> entry of \<open>all_scores\<close>, \<open>i_\<close> identification, \<open>v_\<close> verification, \<open>r_\<close>
  registration, \<open>a_\<close> audio validation).
\<close>

type_synonym extractor = "string \<Rightarrow> error + embedding"

record user =
  u_name :: string
  u_voice_embeddings :: "embedding list"

record score_entry =
  s_name :: string
  s_avg_score :: pyfloat
  s_max_score :: pyfloat
  s_min_score :: pyfloat
  s_num_samples :: nat

text \<open>
  The result of \<open>identify_speaker\<close>. \<open>i_name\<close> is the key \<open>"name"\<close>: a sentinel text or
  \<open>best_match\<close>, which is \<open>None\<close> until some user's average beats the running best.
  \<open>i_status_msg\<close> is not a key of the returned dictionary: it is the \<open>status_msg\<close> that the
  function writes to its log for the tier it chose.
\<close>

record ident_result =
  i_identified :: bool
  i_name :: "string option"
  i_confidence :: pyfloat
  i_all_scores :: "score_entry list"
  i_threshold :: "pyfloat option"
  i_method :: "string option"
  i_error :: "error option"
  i_status_msg :: "string option"

subsection \<open>Scoring one user\<close>

text \<open>
  A loop that appends one result per element and is left by the first exception:
  \<open>collect\<close> runs through the outcomes in order and returns the first error, or all
  the values.
\<close>

fun collect :: "(error + 'a) list \<Rightarrow> error + 'a list" where
  "collect [] = Inr []"
| "collect (x # xs) =
     (case x of
        Inl e \<Rightarrow> Inl e
      | Inr v \<Rightarrow> (case collect xs of Inl e \<Rightarrow> Inl e | Inr vs \<Rightarrow> Inr (v # vs)))"

text \<open>The inner loop: the score of the probe against each stored embedding, in order.\<close>

definition similarities :: "embedding \<Rightarrow> embedding list \<Rightarrow> string \<Rightarrow> error + pyfloat list" where
  "similarities new_embedding user_embeddings method =
     collect (map (\<lambda>stored_embedding. calculate_similarity new_embedding stored_embedding method)
                  user_embeddings)"

definition score_user :: "embedding \<Rightarrow> user \<Rightarrow> string \<Rightarrow> error + score_entry" where
  "score_user new_embedding usr method =
     (case similarities new_embedding (u_voice_embeddings usr) method of
        Inl e \<Rightarrow> Inl e
      | Inr sims \<Rightarrow>
          (case np_max sims of
             Inl e \<Rightarrow> Inl e
           | Inr max_score \<Rightarrow>
               (case np_min sims of
                  Inl e \<Rightarrow> Inl e
                | Inr min_score \<Rightarrow>
                    Inr \<lparr>s_name = u_name usr, s_avg_score = np_mean sims,
                         s_max_score = max_score, s_min_score = min_score,
                         s_num_samples = length sims\<rparr>)))"

subsection \<open>Identification\<close>

text \<open>
  The loop over the registered users, with its three variables \<open>best_match\<close>,
  \<open>best_score\<close> and \<open>all_scores\<close> as the state. An exception leaves the loop.
\<close>

type_synonym scan_state = "string option \<times> pyfloat \<times> score_entry list"

fun scan_users :: "embedding \<Rightarrow> string \<Rightarrow> user list \<Rightarrow> scan_state \<Rightarrow> error + scan_state" where
  "scan_users new_embedding method [] st = Inr st"
| "scan_users new_embedding method (usr # rest) (best_match, best_score, all_scores) =
     (case score_user new_embedding usr method of
        Inl e \<Rightarrow> Inl e
      | Inr entry \<Rightarrow>
          scan_users new_embedding method rest
            (if pf_gt (s_avg_score entry) best_score
             then (Some (u_name usr), s_avg_score entry, all_scores @ [entry])
             else (best_match, best_score, all_scores @ [entry])))"

text \<open>
  \<open>all_scores.sort(key=avg_score, reverse=True)\<close>: a stable sort into descending
  order. On keys without \<open>NaN\<close> this insertion sort yields that order; how CPython
  places \<open>NaN\<close> keys is not modelled.
\<close>

fun insert_desc :: "score_entry \<Rightarrow> score_entry list \<Rightarrow> score_entry list" where
  "insert_desc x [] = [x]"
| "insert_desc x (y # ys) =
     (if pf_gt (s_avg_score y) (s_avg_score x) then y # insert_desc x ys else x # y # ys)"

definition sort_desc :: "score_entry list \<Rightarrow> score_entry list" where
  "sort_desc xs = foldr insert_desc xs []"

definition MIN_DETECTION_THRESHOLD :: real where
  "MIN_DETECTION_THRESHOLD = 0.30"

definition SILENCE_THRESHOLD :: real where
  "SILENCE_THRESHOLD = 0.05"

text \<open>The part of \<open>identify_speaker\<close> after the loop: the tier and the dictionary returned.\<close>

definition classify :: "string option \<Rightarrow> pyfloat \<Rightarrow> score_entry list \<Rightarrow> real \<Rightarrow> string \<Rightarrow> ident_result" where
  "classify best_match best_score all_scores threshold method =
     (let confidence_percentage = pf_mul best_score (Fl 100);
          (identified, result_name, status_msg) =
            (if pf_lt best_score (Fl SILENCE_THRESHOLD)
             then (False, Some ''Can't hear someone speaking'', ''NO VOICE DETECTED'')
             else if pf_lt best_score (Fl MIN_DETECTION_THRESHOLD)
             then (False, Some ''Unknown Person Speaking'', ''UNKNOWN SPEAKER'')
             else if pf_ge best_score (Fl MIN_DETECTION_THRESHOLD) \<and> pf_lt best_score (Fl threshold)
             then (True, best_match, ''LOW CONFIDENCE MATCH'')
             else (True, best_match, ''SPEAKER IDENTIFIED''))
      in \<lparr>i_identified = identified, i_name = result_name,
          i_confidence = py_round2 confidence_percentage,
          i_all_scores = all_scores,
          i_threshold = Some (py_round2 (Fl (threshold * 100))),
          i_method = Some method, i_error = None,
          i_status_msg = Some status_msg\<rparr>)"

definition identify_speaker ::
  "extractor \<Rightarrow> string \<Rightarrow> user list \<Rightarrow> real \<Rightarrow> string \<Rightarrow> ident_result" where
  "identify_speaker extract_embedding audio_path registered_users threshold method =
     (if registered_users = []
      then \<lparr>i_identified = False, i_name = Some ''No users registered'',
            i_confidence = Fl 0.0, i_all_scores = [],
            i_threshold = Some (Fl (threshold * 100)),
            i_method = None, i_error = None, i_status_msg = None\<rparr>
      else
        case (case extract_embedding audio_path of
                Inl e \<Rightarrow> Inl e
              | Inr new_embedding \<Rightarrow>
                  scan_users new_embedding method registered_users (None, Fl 0.0, []))
        of
          Inl e \<Rightarrow>
            \<lparr>i_identified = False, i_name = Some ''Error'', i_confidence = Fl 0.0,
             i_all_scores = [], i_threshold = None, i_method = None,
             i_error = Some e, i_status_msg = None\<rparr>
        | Inr (best_match, best_score, all_scores) \<Rightarrow>
            classify best_match best_score (sort_desc all_scores) threshold method)"

subsection \<open>Verification\<close>

text \<open>
  The four messages of \<open>verify_speaker\<close>, each a text around the claimed name or around
  the text of the exception caught:
  \<open>User '<name>' not registered\<close>, \<open>Voice verified as '<name>'\<close>,
  \<open>Voice does not match '<name>'\<close>, \<open>Verification error: <exception>\<close>.
\<close>

datatype message =
    NotRegistered string
  | VoiceVerified string
  | VoiceDoesNotMatch string
  | VerificationError error

record verify_result =
  v_verified :: bool
  v_message :: message
  v_confidence :: pyfloat
  v_max_confidence :: "pyfloat option"

definition verify_speaker ::
  "extractor \<Rightarrow> string \<Rightarrow> string \<Rightarrow> user list \<Rightarrow> real \<Rightarrow> verify_result" where
  "verify_speaker extract_embedding audio_path claimed_name registered_users threshold =
     (case find (\<lambda>u. u_name u = claimed_name) registered_users of
        None \<Rightarrow>
          \<lparr>v_verified = False, v_message = NotRegistered claimed_name,
           v_confidence = Fl 0.0, v_max_confidence = None\<rparr>
      | Some claimed_user \<Rightarrow>
          (case (case extract_embedding audio_path of
                   Inl e \<Rightarrow> Inl e
                 | Inr new_embedding \<Rightarrow>
                     (case similarities new_embedding (u_voice_embeddings claimed_user) ''cosine'' of
                        Inl e \<Rightarrow> Inl e
                      | Inr sims \<Rightarrow>
                          (case np_max sims of
                             Inl e \<Rightarrow> Inl e
                           | Inr max_score \<Rightarrow> Inr (np_mean sims, max_score))))
           of
             Inl e \<Rightarrow>
               \<lparr>v_verified = False, v_message = VerificationError e,
                v_confidence = Fl 0.0, v_max_confidence = None\<rparr>
           | Inr (avg_score, max_score) \<Rightarrow>
               (let verified = pf_ge avg_score (Fl threshold)
                in \<lparr>v_verified = verified,
                    v_message = (if verified then VoiceVerified claimed_name
                                 else VoiceDoesNotMatch claimed_name),
                    v_confidence = py_round2 (pf_mul avg_score (Fl 100)),
                    v_max_confidence = Some (py_round2 (pf_mul max_score (Fl 100)))\<rparr>)))"

subsection \<open>Registration and the recommended threshold\<close>

text \<open>
  The double loop \<open>for i in range(n): for j in range(i + 1, n)\<close> over a list of
  embeddings, with the default method \<open>cosine\<close>.
\<close>

definition pairwise_similarities :: "embedding list \<Rightarrow> error + pyfloat list" where
  "pairwise_similarities embeddings =
     collect (concat (map (\<lambda>i. map (\<lambda>j. calculate_similarity (embeddings ! i) (embeddings ! j) ''cosine'')
                                   [i + 1 ..< length embeddings])
                          [0 ..< length embeddings]))"

definition extract_all :: "extractor \<Rightarrow> string list \<Rightarrow> error + embedding list" where
  "extract_all extract_embedding audio_paths = collect (map extract_embedding audio_paths)"

record register_result =
  r_success :: bool
  r_embeddings :: "embedding list option"
  r_num_samples :: "nat option"
  r_avg_inter_similarity :: "pyfloat option"
  r_error :: "error option"

definition register_voice :: "extractor \<Rightarrow> string list \<Rightarrow> string \<Rightarrow> register_result" where
  "register_voice extract_embedding audio_paths user_name =
     (case (case extract_all extract_embedding audio_paths of
              Inl e \<Rightarrow> Inl e
            | Inr embeddings \<Rightarrow>
                if length embeddings > 1
                then (case pairwise_similarities embeddings of
                        Inl e \<Rightarrow> Inl e
                      | Inr sims \<Rightarrow> Inr (embeddings, np_mean sims))
                else Inr (embeddings, Fl 1.0))
      of
        Inl e \<Rightarrow>
          \<lparr>r_success = False, r_embeddings = None, r_num_samples = None,
           r_avg_inter_similarity = None, r_error = Some e\<rparr>
      | Inr (embeddings, avg_similarity) \<Rightarrow>
          \<lparr>r_success = True, r_embeddings = Some embeddings,
           r_num_samples = Some (length embeddings),
           r_avg_inter_similarity = Some avg_similarity, r_error = None\<rparr>)"





section \<open>Audio validation\<close>

text \<open>
  \<open>validate_audio\<close> reads the file system and decodes the file. These are parameters:
  whether the path exists, the size of the file in bytes, and what \<open>load_audio\<close>
  returns for the path, the samples and the sample rate, or the \<open>RuntimeError\<close> it
  raises. Samples are real numbers.

  A failed validation carries one of these reasons (the texts of the key \<open>"error"\<close>):
  \<open>Audio file not found\<close>; \<open>File too large (<size>MB). Max: 16MB\<close>;
  \<open>Audio too short (<duration>s). Minimum: <min>s\<close>;
  \<open>Audio too long (<duration>s). Maximum: <max>s\<close>;
  \<open>Audio appears to be silent or too quiet\<close>; \<open>Validation error: <exception>\<close>.
\<close>

record files =
  path_exists :: "string \<Rightarrow> bool"
  path_getsize :: "string \<Rightarrow> nat"
  load_audio :: "string \<Rightarrow> error + (real list \<times> nat)"

datatype reason =
    NotFound
  | TooLarge nat
  | TooShort real real
  | TooLong real real
  | Silent
  | ValidationError error

record validation =
  a_valid :: bool
  a_error :: "reason option"
  a_duration :: "real option"
  a_sample_rate :: "nat option"
  a_num_samples :: "nat option"
  a_energy :: "real option"
  a_zero_crossing_rate :: "real option"

definition invalid :: "reason \<Rightarrow> real option \<Rightarrow> validation" where
  "invalid r d =
     \<lparr>a_valid = False, a_error = Some r, a_duration = d, a_sample_rate = None,
      a_num_samples = None, a_energy = None, a_zero_crossing_rate = None\<rparr>"

text \<open>\<open>np.abs(audio).max()\<close>, which raises \<open>ValueError\<close> on an empty array.\<close>

definition peak :: "real list \<Rightarrow> error + real" where
  "peak audio =
     (if audio = [] then Inl ValueError
      else Inr (fold max (tl (map abs audio)) (hd (map abs audio))))"

text \<open>\<open>np.diff\<close> and the sum of \<open>|diff(sign(audio))|\<close>.\<close>

fun np_diff :: "real list \<Rightarrow> real list" where
  "np_diff (x # y # ys) = (y - x) # np_diff (y # ys)"
| "np_diff _ = []"

definition zero_crossing_sum :: "real list \<Rightarrow> real" where
  "zero_crossing_sum audio = sum_list (map abs (np_diff (map sgn audio)))"

definition validate_audio :: "files \<Rightarrow> string \<Rightarrow> real \<Rightarrow> real \<Rightarrow> validation" where
  "validate_audio fs file_path min_duration max_duration =
     (if \<not> path_exists fs file_path then invalid NotFound None
      else
        let file_size = path_getsize fs file_path
        in if file_size > 16 * 1024 * 1024 then invalid (TooLarge file_size) None
           else
             case load_audio fs file_path of
               Inl e \<Rightarrow> invalid (ValidationError e) None
             | Inr (audio, sr) \<Rightarrow>
                 if sr = 0 then invalid (ValidationError ZeroDivisionError) None
                 else
                   let duration = real (length audio) / real sr
                   in if duration < min_duration
                      then invalid (TooShort duration min_duration) (Some duration)
                      else if duration > max_duration
                      then invalid (TooLong duration max_duration) (Some duration)
                      else
                        (case peak audio of
                           Inl e \<Rightarrow> invalid (ValidationError e) None
                         | Inr p \<Rightarrow>
                             if p < 0.001 then invalid Silent None
                             else
                               \<lparr>a_valid = True, a_error = None,
                                a_duration = Some duration, a_sample_rate = Some sr,
                                a_num_samples = Some (length audio),
                                a_energy = Some (sqrt (mean (map (\<lambda>x. x\<^sup>2) audio))),
                                a_zero_crossing_rate =
                                  Some (zero_crossing_sum audio / (2 * real (length audio)))\<rparr>))"

section \<open>Properties of the similarity measures\<close>

lemma np_dot_self: "np_dot v v = sum_list (map (\<lambda>x. x\<^sup>2) v)"
  by (induction v) (simp_all add: np_dot_def power2_eq_square)

lemma sum_squares_nonneg: "0 \<le> sum_list (map (\<lambda>x. x\<^sup>2) (v::real list))"
  by (induction v) simp_all

lemma sum_squares_pos:
  "\<exists>x\<in>set v. x \<noteq> 0 \<Longrightarrow> 0 < sum_list (map (\<lambda>x. x\<^sup>2) (v::real list))"
proof (induction v)
  case Nil
  then show ?case by simp
next
  case (Cons a v)
  have nn: "0 \<le> sum_list (map (\<lambda>x. x\<^sup>2) v)" by (rule sum_squares_nonneg)
  show ?case
  proof (cases "a = 0")
    case True
    with Cons show ?thesis by simp
  next
    case False
    then have "0 < a\<^sup>2" by simp
    with nn have "0 < a\<^sup>2 + sum_list (map (\<lambda>x. x\<^sup>2) v)" by linarith
    then show ?thesis by simp
  qed
qed

lemma norm2_nonneg: "0 \<le> norm2 d"
  by (simp add: norm2_def sum_squares_nonneg)

text \<open>
  C8: for every vector \<open>v\<close> with a non-zero component, the cosine similarity of \<open>v\<close>
  with itself is \<open>1.0\<close>, both through \<open>calculate_similarity_cosine\<close> and through the
  dispatcher \<open>calculate_similarity\<close> with the method \<open>cosine\<close>. (On the real numbers:
  the dot product of \<open>v\<close> with itself is positive, so the quotient is exactly one.)
\<close>

theorem cosine_self_similarity:
  assumes "\<exists>x\<in>set v. x \<noteq> 0"
  shows "calculate_similarity_cosine v v = Inr (Fl 1)
       \<and> calculate_similarity v v ''cosine'' = Inr (Fl 1)"
proof -
  have pos: "0 < np_dot v v"
    using sum_squares_pos [OF assms] by (simp add: np_dot_self)
  then have "sqrt (np_dot v v * np_dot v v) = np_dot v v" by simp
  with pos have "cosine v v = Inr (Fl 0)"
    by (simp add: cosine_def Let_def)
  then show ?thesis
    by (simp add: calculate_similarity_cosine_def calculate_similarity_def)
qed

theorem cosine_self_similarity_witness:
  "(\<exists>x\<in>set [1, 0::real]. x \<noteq> 0)
   \<and> calculate_similarity_cosine [1, 0] [1, 0] = Inr (Fl 1)
   \<and> calculate_similarity [1, 0] [1, 0] ''cosine'' = Inr (Fl 1)"
  using cosine_self_similarity [of "[1, 0]"] by simp

text \<open>
  C9: for two vectors \<open>a\<close> and \<open>b\<close> of the same dimension the Euclidean method returns
  a score \<open>s = 1 / (1 + d)\<close>, where \<open>d\<close> is their Euclidean distance; \<open>s\<close> lies in the
  interval \<open>(0, 1]\<close> and is \<open>1\<close> exactly when the distance is \<open>0\<close>.
\<close>

theorem euclidean_similarity_range:
  assumes "length a = length b"
  shows "\<exists>d s. euclidean a b = Inr d \<and> calculate_similarity_euclidean a b = Inr (Fl s)
           \<and> s = 1 / (1 + d) \<and> 0 < s \<and> s \<le> 1 \<and> (s = 1 \<longleftrightarrow> d = 0)"
proof -
  define d where "d = norm2 (map2 (-) a b)"
  have e: "euclidean a b = Inr d"
    using assms by (simp add: euclidean_def np_subtract_def d_def)
  have nn: "0 \<le> d" unfolding d_def by (rule norm2_nonneg)
  have s: "calculate_similarity_euclidean a b = Inr (Fl (1 / (1 + d)))"
    using e by (simp add: calculate_similarity_euclidean_def)
  have "0 < 1 / (1 + d)" using nn by simp
  moreover have "1 / (1 + d) \<le> 1" using nn by simp
  moreover have "(1 / (1 + d) = 1) \<longleftrightarrow> d = 0" using nn by (simp add: field_simps)
  ultimately show ?thesis using e s by blast
qed

theorem euclidean_similarity_range_witness:
  "length [0, 0::real] = length [0, 2::real] \<and>
   (\<exists>d s. euclidean [0, 0] [0, 2] = Inr d
      \<and> calculate_similarity_euclidean [0, 0] [0, 2] = Inr (Fl s)
      \<and> s = 1 / (1 + d) \<and> 0 < s \<and> s \<le> 1 \<and> (s = 1 \<longleftrightarrow> d = 0))"
  using euclidean_similarity_range [of "[0, 0]" "[0, 2]"] by simp

section \<open>Properties of the operations with a fixed outcome\<close>

text \<open>
  C3: with an empty list of registered users, \<open>identify_speaker\<close> returns, for every
  extractor, audio path, threshold and method, the dictionary with \<open>identified = False\<close>,
  the name \<open>No users registered\<close>, confidence \<open>0.0\<close> and an empty score list (and the
  threshold as a percentage); the audio is not even decoded.
\<close>

theorem identify_no_users:
  "identify_speaker extract_embedding audio_path [] threshold method =
     \<lparr>i_identified = False, i_name = Some ''No users registered'', i_confidence = Fl 0,
      i_all_scores = [], i_threshold = Some (Fl (threshold * 100)), i_method = None,
      i_error = None, i_status_msg = None\<rparr>"
  by (simp add: identify_speaker_def)

text \<open>
  C6: registering exactly one audio sample whose embedding \<open>e\<close> is extracted succeeds
  with \<open>avg_inter_similarity = 1.0\<close>, whatever the embedding is; the result holds the
  one embedding and \<open>num_samples = 1\<close>.
\<close>

theorem register_single_sample:
  assumes "extract_embedding audio_path = Inr e"
  shows "register_voice extract_embedding [audio_path] user_name =
           \<lparr>r_success = True, r_embeddings = Some [e], r_num_samples = Some 1,
            r_avg_inter_similarity = Some (Fl 1), r_error = None\<rparr>"
  using assms by (simp add: register_voice_def extract_all_def)

theorem register_single_sample_witness:
  "(\<lambda>p. Inr [3, 4]) ''a.wav'' = (Inr [3, 4] :: error + embedding)
   \<and> r_avg_inter_similarity (register_voice (\<lambda>p. Inr [3, 4]) [''a.wav''] ''alice'')
       = Some (Fl 1)"
  using register_single_sample [of "\<lambda>p. Inr [3, 4]" "''a.wav''" "[3, 4]" "''alice''"]
  by simp

section \<open>Audio validation: the duration bounds\<close>

text \<open>
  C7: for a file that exists, is at most 16 MiB large, decodes to samples at a positive
  rate and has a peak amplitude of at least \<open>0.001\<close>, validation succeeds exactly when
  \<open>min_duration \<le> duration \<le> max_duration\<close>, where \<open>duration\<close> is the number of
  samples divided by the sample rate. So both bounds are inclusive: a duration equal to
  either bound (of an interval with \<open>min_duration \<le> max_duration\<close>) is valid, a
  duration below the minimum is the structured failure \<open>TooShort\<close>, and one above the
  maximum is the structured failure \<open>TooLong\<close>.
\<close>

theorem validate_duration_bounds:
  assumes "path_exists fs file_path"
    and "path_getsize fs file_path \<le> 16 * 1024 * 1024"
    and "load_audio fs file_path = Inr (audio, sr)"
    and "0 < sr"
    and "peak audio = Inr p"
    and "0.001 \<le> p"
  shows "(a_valid (validate_audio fs file_path min_duration max_duration)
            \<longleftrightarrow> min_duration \<le> real (length audio) / real sr
                \<and> real (length audio) / real sr \<le> max_duration)
       \<and> (min_duration \<le> max_duration
            \<and> (real (length audio) / real sr = min_duration
                \<or> real (length audio) / real sr = max_duration) \<longrightarrow>
            a_valid (validate_audio fs file_path min_duration max_duration))
       \<and> (real (length audio) / real sr < min_duration \<longrightarrow>
            validate_audio fs file_path min_duration max_duration =
              invalid (TooShort (real (length audio) / real sr) min_duration)
                      (Some (real (length audio) / real sr)))
       \<and> (min_duration \<le> real (length audio) / real sr
            \<and> max_duration < real (length audio) / real sr \<longrightarrow>
            validate_audio fs file_path min_duration max_duration =
              invalid (TooLong (real (length audio) / real sr) max_duration)
                      (Some (real (length audio) / real sr)))"
  using assms by (auto simp add: validate_audio_def Let_def invalid_def)

theorem validate_duration_bounds_witness:
  "a_valid (validate_audio
      \<lparr>path_exists = (\<lambda>p. True), path_getsize = (\<lambda>p. 1000),
       load_audio = (\<lambda>p. Inr ([1/2, -1/2, 1/2, -1/2], 2))\<rparr> ''a.wav'' 2 30)
   \<and> a_valid (validate_audio
      \<lparr>path_exists = (\<lambda>p. True), path_getsize = (\<lambda>p. 1000),
       load_audio = (\<lambda>p. Inr ([1/2, -1/2, 1/2, -1/2], 2))\<rparr> ''a.wav'' 1 2)
   \<and> validate_audio
      \<lparr>path_exists = (\<lambda>p. True), path_getsize = (\<lambda>p. 1000),
       load_audio = (\<lambda>p. Inr ([1/2, -1/2, 1/2, -1/2], 2))\<rparr> ''a.wav'' 3 30
      = invalid (TooShort 2 3) (Some 2)
   \<and> validate_audio
      \<lparr>path_exists = (\<lambda>p. True), path_getsize = (\<lambda>p. 1000),
       load_audio = (\<lambda>p. Inr ([1/2, -1/2, 1/2, -1/2], 2))\<rparr> ''a.wav'' 1 (3/2)
      = invalid (TooLong 2 (3/2)) (Some 2)"
proof -
  let ?fs = "\<lparr>path_exists = (\<lambda>p. True), path_getsize = (\<lambda>p. 1000),
       load_audio = (\<lambda>p. Inr ([1/2, -1/2, 1/2, -1/2 :: real], 2 :: nat))\<rparr>"
  have h1: "path_exists ?fs ''a.wav''" by simp
  have h2: "path_getsize ?fs ''a.wav'' \<le> 16 * 1024 * 1024" by simp
  have h3: "load_audio ?fs ''a.wav'' = Inr ([1/2, -1/2, 1/2, -1/2], 2)" by simp
  have h4: "0 < (2::nat)" by simp
  have h5: "peak [1/2, -1/2, 1/2, -1/2] = Inr (1/2)" by (simp add: peak_def)
  have h6: "(0.001::real) \<le> 1/2" by simp
  note T = validate_duration_bounds [OF h1 h2 h3 h4 h5 h6]
  show ?thesis
    using T [of 2 30] T [of 1 2] T [of 3 30] T [of 1 "3/2"] by simp
qed

section \<open>Verification\<close>

lemma find_None_name: "find (\<lambda>u. u_name u = n) us = None \<longleftrightarrow> n \<notin> u_name ` set us"
  by (auto simp: find_None_iff)

lemma np_max_Inl: "np_max sims = Inl x \<longleftrightarrow> sims = [] \<and> x = ValueError"
  by (auto simp: np_max_def split: option.splits)

lemma np_mean_Nil: "np_mean [] = NaN"
  by (simp add: np_mean_def)

lemma sim_10_10: "calculate_similarity [1, 0] [1, 0] ''cosine'' = Inr (Fl 1)"
  by (simp add: calculate_similarity_def calculate_similarity_cosine_def cosine_def np_dot_def)

text \<open>
  C4: when the embedding \<open>e\<close> of the probe is extracted, \<open>verify_speaker\<close> returns
  \<open>verified = True\<close> if and only if the claimed name is the name of a registered user
  and the mean \<open>m\<close> of the similarities of \<open>e\<close> to the stored embeddings of that user
  (the first one with that name) is a number with \<open>threshold \<le> m\<close>. When no registered
  user has the claimed name, the result is \<open>verified = False\<close> with the message
  \<open>User '<name>' not registered\<close> and confidence \<open>0.0\<close>, for every extractor.
\<close>

theorem verify_speaker_decision:
  "(extract_embedding audio_path = Inr e \<longrightarrow>
      (v_verified (verify_speaker extract_embedding audio_path claimed_name registered_users threshold)
        \<longleftrightarrow> (\<exists>u sims m. find (\<lambda>u. u_name u = claimed_name) registered_users = Some u
                \<and> similarities e (u_voice_embeddings u) ''cosine'' = Inr sims
                \<and> np_mean sims = Fl m \<and> threshold \<le> m)))
   \<and> (claimed_name \<notin> u_name ` set registered_users \<longrightarrow>
        verify_speaker extract_embedding audio_path claimed_name registered_users threshold =
          \<lparr>v_verified = False, v_message = NotRegistered claimed_name,
           v_confidence = Fl 0, v_max_confidence = None\<rparr>)"
proof (intro conjI impI)
  assume "claimed_name \<notin> u_name ` set registered_users"
  then have "find (\<lambda>u. u_name u = claimed_name) registered_users = None"
    by (simp add: find_None_name)
  then show "verify_speaker extract_embedding audio_path claimed_name registered_users threshold =
          \<lparr>v_verified = False, v_message = NotRegistered claimed_name,
           v_confidence = Fl 0, v_max_confidence = None\<rparr>"
    by (simp add: verify_speaker_def)
next
  assume ext: "extract_embedding audio_path = Inr e"
  show "v_verified (verify_speaker extract_embedding audio_path claimed_name registered_users threshold)
        \<longleftrightarrow> (\<exists>u sims m. find (\<lambda>u. u_name u = claimed_name) registered_users = Some u
                \<and> similarities e (u_voice_embeddings u) ''cosine'' = Inr sims
                \<and> np_mean sims = Fl m \<and> threshold \<le> m)"
  proof (cases "find (\<lambda>u. u_name u = claimed_name) registered_users")
    case None
    then show ?thesis by (simp add: verify_speaker_def Let_def)
  next
    case (Some u)
    show ?thesis
    proof (cases "similarities e (u_voice_embeddings u) ''cosine''")
      case (Inl x)
      with Some ext show ?thesis by (simp add: verify_speaker_def Let_def)
    next
      case (Inr sims)
      show ?thesis
      proof (cases "np_max sims")
        case (Inl x)
        then have "sims = []" by (simp add: np_max_Inl)
        with Some ext Inr Inl show ?thesis
          by (simp add: verify_speaker_def np_mean_Nil)
      next
        case mx: (Inr mxs)
        show ?thesis
        proof (cases "np_mean sims")
          case NaN
          with Some ext Inr mx show ?thesis by (simp add: verify_speaker_def Let_def)
        next
          case (Fl m)
          with Some ext Inr mx show ?thesis by (simp add: verify_speaker_def Let_def)
        qed
      qed
    qed
  qed
qed

theorem verify_speaker_decision_witness:
  "v_verified (verify_speaker (\<lambda>p. Inr [1, 0]) ''probe.wav'' ''alice''
       [\<lparr>u_name = ''alice'', u_voice_embeddings = [[1, 0]]\<rparr>] 0.65)
   \<and> verify_speaker (\<lambda>p. Inr [1, 0]) ''probe.wav'' ''bob''
       [\<lparr>u_name = ''alice'', u_voice_embeddings = [[1, 0]]\<rparr>] 0.65
      = \<lparr>v_verified = False, v_message = NotRegistered ''bob'',
           v_confidence = Fl 0, v_max_confidence = None\<rparr>"
  using verify_speaker_decision [of "\<lambda>p. Inr [1, 0]" "''probe.wav''" "[1, 0]" "''alice''"
          "[\<lparr>u_name = ''alice'', u_voice_embeddings = [[1, 0]]\<rparr>]" "0.65"]
        verify_speaker_decision [of "\<lambda>p. Inr [1, 0]" "''probe.wav''" "[1, 0]" "''bob''"
          "[\<lparr>u_name = ''alice'', u_voice_embeddings = [[1, 0]]\<rparr>]" "0.65"]
  by (simp add: similarities_def sim_10_10 np_mean_def mean_def Let_def)

section \<open>The recommended threshold\<close>













section \<open>Identification: the scan over the registered users\<close>

text \<open>
  In the lemmas below \<open>m u\<close> is the mean similarity of the probe to the stored
  embeddings of the user \<open>u\<close>, a number for every user of the list.
\<close>

lemma Max_insert_all_le:
  fixes a :: real
  assumes "finite S" "\<forall>x\<in>S. x \<le> a"
  shows "Max (insert a S) = a"
  using assms by (intro Max_eqI) auto

lemma Max_insert_absorb:
  fixes a b :: real
  assumes "finite S" "a \<le> b"
  shows "Max (insert b (insert a S)) = Max (insert b S)"
proof -
  have "Max (insert a (insert b S)) = max a (Max (insert b S))"
    using assms(1) by (simp add: Max_insert)
  moreover have "b \<le> Max (insert b S)" using assms(1) by simp
  ultimately show ?thesis using assms(2) by (simp add: insert_commute max_def)
qed

lemma Max_insert_drop:
  fixes a b :: real
  assumes "finite S" "b < a"
  shows "Max (insert b (insert a S)) = Max (insert a S)"
proof -
  have "Max (insert b (insert a S)) = max b (Max (insert a S))"
    using assms(1) by (simp add: Max_insert)
  moreover have "a \<le> Max (insert a S)" using assms(1) by simp
  ultimately show ?thesis using assms(2) by (simp add: max_def)
qed

lemma Max_insert_exceeds:
  fixes a :: real
  assumes "finite S" "\<not> (\<forall>x\<in>S. x \<le> a)"
  shows "a < Max (insert a S)"
proof -
  from assms(2) obtain x where x: "x \<in> S" "a < x" by (auto simp: not_le)
  then have "x \<le> Max (insert a S)" using assms(1) by simp
  with x show ?thesis by simp
qed

lemma scan_users_best:
  assumes "\<forall>u\<in>set us. \<exists>entry. score_user e u method = Inr entry \<and> s_avg_score entry = Fl (m u)"
  shows "\<exists>entries. scan_users e method us (bm, Fl b, acc) =
           Inr (if \<forall>u\<in>set us. m u \<le> b then bm
                else map_option u_name (find (\<lambda>u. m u = Max (insert b (m ` set us))) us),
                Fl (Max (insert b (m ` set us))), entries)"
  using assms
proof (induction us arbitrary: bm b acc)
  case Nil
  then show ?case by simp
next
  case (Cons u us)
  from Cons.prems obtain entry
    where entry: "score_user e u method = Inr entry" "s_avg_score entry = Fl (m u)"
    by auto
  have rest: "\<forall>u\<in>set us. \<exists>entry. score_user e u method = Inr entry \<and> s_avg_score entry = Fl (m u)"
    using Cons.prems by simp
  have fin: "finite (m ` set us)" by simp
  show ?case
  proof (cases "b < m u")
    case True
    have step: "scan_users e method (u # us) (bm, Fl b, acc) =
                scan_users e method us (Some (u_name u), Fl (m u), acc @ [entry])"
      using entry True by simp
    from Cons.IH [OF rest, of "Some (u_name u)" "m u" "acc @ [entry]"]
    obtain entries where ih: "scan_users e method us (Some (u_name u), Fl (m u), acc @ [entry]) =
           Inr (if \<forall>v\<in>set us. m v \<le> m u then Some (u_name u)
                else map_option u_name (find (\<lambda>v. m v = Max (insert (m u) (m ` set us))) us),
                Fl (Max (insert (m u) (m ` set us))), entries)" by blast
    have M: "Max (insert b (m ` set (u # us))) = Max (insert (m u) (m ` set us))"
      using Max_insert_drop [OF fin True] by simp
    have nall: "\<not> (\<forall>v\<in>set (u # us). m v \<le> b)" using True by auto
    have bm: "(if \<forall>v\<in>set us. m v \<le> m u then Some (u_name u)
                else map_option u_name (find (\<lambda>v. m v = Max (insert (m u) (m ` set us))) us))
            = map_option u_name (find (\<lambda>v. m v = Max (insert (m u) (m ` set us))) (u # us))"
    proof (cases "\<forall>v\<in>set us. m v \<le> m u")
      case True
      then have "Max (insert (m u) (m ` set us)) = m u"
        using Max_insert_all_le [OF fin, of "m u"] by auto
      with True show ?thesis by simp
    next
      case False
      then have "m u < Max (insert (m u) (m ` set us))"
        using Max_insert_exceeds [OF fin, of "m u"] by auto
      then have ne: "m u \<noteq> Max (insert (m u) (m ` set us))" by simp
      have "find (\<lambda>v. m v = Max (insert (m u) (m ` set us))) (u # us)
            = find (\<lambda>v. m v = Max (insert (m u) (m ` set us))) us"
        using ne by simp
      then show ?thesis using False by (simp only: if_False)
    qed
    show ?thesis
      unfolding step ih M bm using nall by auto
  next
    case False
    then have le: "m u \<le> b" by simp
    have step: "scan_users e method (u # us) (bm, Fl b, acc) =
                scan_users e method us (bm, Fl b, acc @ [entry])"
      using entry False by simp
    from Cons.IH [OF rest, of bm b "acc @ [entry]"]
    obtain entries where ih: "scan_users e method us (bm, Fl b, acc @ [entry]) =
           Inr (if \<forall>v\<in>set us. m v \<le> b then bm
                else map_option u_name (find (\<lambda>v. m v = Max (insert b (m ` set us))) us),
                Fl (Max (insert b (m ` set us))), entries)" by blast
    have M: "Max (insert b (m ` set (u # us))) = Max (insert b (m ` set us))"
      using Max_insert_absorb [OF fin le] by simp
    have all: "(\<forall>v\<in>set (u # us). m v \<le> b) \<longleftrightarrow> (\<forall>v\<in>set us. m v \<le> b)"
      using le by simp
    have skip: "\<not> (\<forall>v\<in>set us. m v \<le> b) \<Longrightarrow>
        find (\<lambda>v. m v = Max (insert b (m ` set us))) (u # us)
        = find (\<lambda>v. m v = Max (insert b (m ` set us))) us"
    proof -
      assume "\<not> (\<forall>v\<in>set us. m v \<le> b)"
      then have "b < Max (insert b (m ` set us))"
        using Max_insert_exceeds [OF fin, of b] by auto
      with le have "m u \<noteq> Max (insert b (m ` set us))" by simp
      then show ?thesis by simp
    qed
    show ?thesis
      unfolding step ih M all using skip by auto
  qed
qed


lemma Max_insert_zero:
  fixes S :: "real set"
  assumes "finite S" "S \<noteq> {}"
  shows "Max (insert 0 S) = max 0 (Max S)"
  using assms by (simp add: Max_insert)

lemma find_Max_Some:
  assumes "us \<noteq> []"
  shows "\<exists>u. find (\<lambda>u. (m u :: real) = Max (m ` set us)) us = Some u"
proof -
  have "Max (m ` set us) \<in> m ` set us" using assms by (intro Max_in) auto
  then obtain u where "u \<in> set us" "m u = Max (m ` set us)" by auto
  then have "find (\<lambda>u. m u = Max (m ` set us)) us \<noteq> None"
    by (auto simp: find_None_iff)
  then show ?thesis by auto
qed

lemma scan_users_from_start:
  assumes "us \<noteq> []"
    and "\<forall>u\<in>set us. \<exists>entry. score_user e u method = Inr entry \<and> s_avg_score entry = Fl (m u)"
  shows "\<exists>entries. scan_users e method us (None, Fl 0.0, []) =
           Inr (if \<forall>u\<in>set us. m u \<le> 0 then None
                else map_option u_name (find (\<lambda>u. m u = Max (m ` set us)) us),
                Fl (max 0 (Max (m ` set us))), entries)"
proof -
  have fin: "finite (m ` set us)" and ne: "m ` set us \<noteq> {}" using assms(1) by simp_all
  have M: "Max (insert 0 (m ` set us)) = max 0 (Max (m ` set us))"
    using fin ne by (rule Max_insert_zero)
  from scan_users_best [OF assms(2), of None 0 "[]"]
  obtain entries where sc: "scan_users e method us (None, Fl 0, []) =
           Inr (if \<forall>u\<in>set us. m u \<le> 0 then None
                else map_option u_name (find (\<lambda>u. m u = Max (insert 0 (m ` set us))) us),
                Fl (Max (insert 0 (m ` set us))), entries)" by blast
  show ?thesis
  proof (cases "\<forall>u\<in>set us. m u \<le> 0")
    case True
    with sc M show ?thesis by simp
  next
    case False
    then obtain u where "u \<in> set us" "0 < m u" by (auto simp: not_le)
    then have "0 < Max (m ` set us)"
      using fin by (meson Max_ge imageI less_le_trans)
    then have mx: "max 0 (Max (m ` set us)) = Max (m ` set us)" by simp
    have "scan_users e method us (None, Fl 0.0, []) =
           Inr (map_option u_name (find (\<lambda>u. m u = Max (m ` set us)) us),
                Fl (Max (m ` set us)), entries)"
      using sc False unfolding M mx by (simp only: if_False) simp
    then show ?thesis using False unfolding mx by (simp only: if_False) blast
  qed
qed

lemma identify_speaker_classify:
  assumes "us \<noteq> []"
    and "extract_embedding audio_path = Inr e"
    and "\<forall>u\<in>set us. \<exists>entry. score_user e u method = Inr entry \<and> s_avg_score entry = Fl (m u)"
  shows "\<exists>scores. identify_speaker extract_embedding audio_path us threshold method =
           classify (if \<forall>u\<in>set us. m u \<le> 0 then None
                     else map_option u_name (find (\<lambda>u. m u = Max (m ` set us)) us))
                    (Fl (max 0 (Max (m ` set us)))) scores threshold method"
proof -
  from scan_users_from_start [OF assms(1) assms(3)]
  obtain entries where "scan_users e method us (None, Fl 0.0, []) =
           Inr (if \<forall>u\<in>set us. m u \<le> 0 then None
                else map_option u_name (find (\<lambda>u. m u = Max (m ` set us)) us),
                Fl (max 0 (Max (m ` set us))), entries)" by blast
  then have "identify_speaker extract_embedding audio_path us threshold method =
           classify (if \<forall>u\<in>set us. m u \<le> 0 then None
                     else map_option u_name (find (\<lambda>u. m u = Max (m ` set us)) us))
                    (Fl (max 0 (Max (m ` set us)))) (sort_desc entries) threshold method"
    using assms(1,2) by (simp add: identify_speaker_def)
  then show ?thesis by blast
qed

section \<open>Identification: the four tiers\<close>


lemma score_user_one:
  "score_user [1, 0] \<lparr>u_name = n, u_voice_embeddings = [[1, 0]]\<rparr> ''cosine'' =
     Inr \<lparr>s_name = n, s_avg_score = Fl 1, s_max_score = Fl 1, s_min_score = Fl 1,
          s_num_samples = 1\<rparr>"
  by (simp add: score_user_def similarities_def calculate_similarity_def
      calculate_similarity_cosine_def cosine_def np_dot_def np_max_def np_min_def
      np_mean_def mean_def)


lemma score_user_zero:
  "score_user [1, 0] \<lparr>u_name = n, u_voice_embeddings = [[0, 1]]\<rparr> ''cosine'' =
     Inr \<lparr>s_name = n, s_avg_score = Fl 0, s_max_score = Fl 0, s_min_score = Fl 0,
          s_num_samples = 1\<rparr>"
  by (simp add: score_user_def similarities_def calculate_similarity_def
      calculate_similarity_cosine_def cosine_def np_dot_def np_max_def np_min_def
      np_mean_def mean_def)

lemma score_user_minus:
  "score_user [1, 0] \<lparr>u_name = n, u_voice_embeddings = [[- 1, 0]]\<rparr> ''cosine'' =
     Inr \<lparr>s_name = n, s_avg_score = Fl (- 1), s_max_score = Fl (- 1), s_min_score = Fl (- 1),
          s_num_samples = 1\<rparr>"
  by (simp add: score_user_def similarities_def calculate_similarity_def
      calculate_similarity_cosine_def cosine_def np_dot_def np_max_def np_min_def
      np_mean_def mean_def)




section \<open>Identification: the selection of the best match\<close>

text \<open>
  C2: let the list of registered users be non-empty and let every user \<open>u\<close> have a
  mean similarity \<open>m u\<close> to the probe that is a number. The loop of \<open>identify_speaker\<close>
  starts from \<open>best_match = None\<close> and \<open>best_score = 0.0\<close> and replaces them only by a
  mean that is strictly greater. So when some mean is greater than \<open>0\<close>, the best match
  is the first user of the list whose mean is the greatest one, and the best score is
  that mean: of two users with the same greatest mean the one met first is selected.
  When no mean is greater than \<open>0\<close>, no user is selected: \<open>best_match\<close> stays \<open>None\<close>
  and \<open>best_score\<close> stays \<open>0.0\<close>.
\<close>

theorem best_match_selection:
  assumes "registered_users \<noteq> []"
    and "\<forall>u\<in>set registered_users.
           \<exists>entry. score_user e u method = Inr entry \<and> s_avg_score entry = Fl (m u)"
  shows "\<exists>all_scores.
           scan_users e method registered_users (None, Fl 0.0, []) =
             Inr (if \<forall>u\<in>set registered_users. m u \<le> 0 then None
                  else map_option u_name
                         (find (\<lambda>u. m u = Max (m ` set registered_users)) registered_users),
                  Fl (max 0 (Max (m ` set registered_users))), all_scores)
           \<and> (\<exists>u\<in>set registered_users.
                 find (\<lambda>u. m u = Max (m ` set registered_users)) registered_users = Some u)"
proof -
  from scan_users_from_start [OF assms]
  obtain entries where sc: "scan_users e method registered_users (None, Fl 0.0, []) =
             Inr (if \<forall>u\<in>set registered_users. m u \<le> 0 then None
                  else map_option u_name
                         (find (\<lambda>u. m u = Max (m ` set registered_users)) registered_users),
                  Fl (max 0 (Max (m ` set registered_users))), entries)" by blast
  from find_Max_Some [OF assms(1), of m]
  obtain u where u: "find (\<lambda>u. m u = Max (m ` set registered_users)) registered_users = Some u"
    by blast
  then have "u \<in> set registered_users" by (auto simp: find_Some_iff)
  with u sc show ?thesis by blast
qed

theorem best_match_selection_witness:
  "\<exists>all_scores.
     scan_users [1, 0] ''cosine''
       [\<lparr>u_name = ''dave'', u_voice_embeddings = [[0, 1]]\<rparr>,
        \<lparr>u_name = ''bob'', u_voice_embeddings = [[1, 0]]\<rparr>,
        \<lparr>u_name = ''carol'', u_voice_embeddings = [[1, 0]]\<rparr>] (None, Fl 0.0, [])
     = Inr (Some ''bob'', Fl 1, all_scores)"
proof -
  let ?dave = "\<lparr>u_name = ''dave'', u_voice_embeddings = [[0, 1 :: real]]\<rparr>"
  let ?bob = "\<lparr>u_name = ''bob'', u_voice_embeddings = [[1, 0 :: real]]\<rparr>"
  let ?carol = "\<lparr>u_name = ''carol'', u_voice_embeddings = [[1, 0 :: real]]\<rparr>"
  let ?m = "\<lambda>u. if u_name u = ''dave'' then 0 else (1 :: real)"
  have ne: "[?dave, ?bob, ?carol] \<noteq> []" by simp
  have h: "\<forall>u\<in>set [?dave, ?bob, ?carol].
      \<exists>entry. score_user [1, 0] u ''cosine'' = Inr entry \<and> s_avg_score entry = Fl (?m u)"
    by (simp add: score_user_one score_user_zero)
  have M: "Max (?m ` set [?dave, ?bob, ?carol]) = 1" by simp
  show ?thesis
    using best_match_selection [of "[?dave, ?bob, ?carol]" "[1, 0]" "''cosine''" ?m, OF ne h]
    unfolding M by simp
qed

text \<open>
  The selection is not made for every non-empty list: for a single user whose only stored
  embedding is opposite to the probe, the mean is \<open>-1\<close>, the greatest mean of the
  list, and the loop ends with \<open>best_match = None\<close> and \<open>best_score = 0.0\<close>.
\<close>

theorem best_match_not_selected:
  "scan_users [1, 0] ''cosine'' [\<lparr>u_name = ''alice'', u_voice_embeddings = [[- 1, 0]]\<rparr>]
     (None, Fl 0.0, [])
   = Inr (None, Fl 0.0,
          [\<lparr>s_name = ''alice'', s_avg_score = Fl (- 1), s_max_score = Fl (- 1),
            s_min_score = Fl (- 1), s_num_samples = 1\<rparr>])"
  by (simp add: score_user_minus)

text \<open>
  C10: let the list of registered users be non-empty, let the probe's embedding be
  extracted, and let every user's mean similarity to the probe be a number that is at
  most \<open>0\<close>. Then \<open>identify_speaker\<close> returns \<open>identified = False\<close>, confidence \<open>0.0\<close>
  and the name \<open>Can't hear someone speaking\<close>: the loop ends with \<open>best_match = None\<close>
  and \<open>best_score = 0.0\<close>, its starting values, and the confidence reported is computed
  from that \<open>0.0\<close>, not from the greatest (non-positive) mean.
\<close>

theorem identify_nonpositive_means:
  assumes "registered_users \<noteq> []"
    and "extract_embedding audio_path = Inr e"
    and "\<forall>u\<in>set registered_users.
           \<exists>entry. score_user e u method = Inr entry \<and> s_avg_score entry = Fl (m u)"
    and "\<forall>u\<in>set registered_users. m u \<le> 0"
  shows "\<not> i_identified (identify_speaker extract_embedding audio_path registered_users threshold method)
       \<and> i_confidence (identify_speaker extract_embedding audio_path registered_users threshold method)
           = Fl 0.0
       \<and> i_name (identify_speaker extract_embedding audio_path registered_users threshold method)
           = Some ''Can't hear someone speaking''
       \<and> (\<exists>all_scores. scan_users e method registered_users (None, Fl 0.0, [])
             = Inr (None, Fl 0.0, all_scores))"
proof -
  have fin: "finite (m ` set registered_users)" and ne: "m ` set registered_users \<noteq> {}"
    using assms(1) by simp_all
  have "Max (m ` set registered_users) \<le> 0"
    using assms(4) fin ne by (simp add: Max_le_iff)
  then have mx: "max 0 (Max (m ` set registered_users)) = 0" by simp
  from identify_speaker_classify
         [of registered_users extract_embedding audio_path e "method" m threshold,
          OF assms(1,2,3)]
  obtain scores where r: "identify_speaker extract_embedding audio_path registered_users threshold method =
      classify None (Fl 0) scores threshold method"
    using assms(4) unfolding mx by auto
  have rz: "round_half_even 0 = 0" by (simp add: round_half_even_def)
  have c: "classify None (Fl 0) scores threshold method =
      \<lparr>i_identified = False, i_name = Some ''Can't hear someone speaking'',
       i_confidence = Fl 0, i_all_scores = scores,
       i_threshold = Some (py_round2 (Fl (threshold * 100))), i_method = Some method,
       i_error = None, i_status_msg = Some ''NO VOICE DETECTED''\<rparr>"
    by (simp add: classify_def SILENCE_THRESHOLD_def rz)
  from scan_users_from_start [OF assms(1,3)]
  have sc: "\<exists>all_scores. scan_users e method registered_users (None, Fl 0.0, [])
             = Inr (None, Fl 0.0, all_scores)"
    using assms(4) unfolding mx by auto
  show ?thesis unfolding r c using sc by simp
qed

theorem identify_nonpositive_means_witness:
  "\<not> i_identified (identify_speaker (\<lambda>p. Inr [1, 0]) ''probe.wav''
       [\<lparr>u_name = ''alice'', u_voice_embeddings = [[- 1, 0]]\<rparr>,
        \<lparr>u_name = ''dave'', u_voice_embeddings = [[0, 1]]\<rparr>] 0.65 ''cosine'')
   \<and> i_confidence (identify_speaker (\<lambda>p. Inr [1, 0]) ''probe.wav''
       [\<lparr>u_name = ''alice'', u_voice_embeddings = [[- 1, 0]]\<rparr>,
        \<lparr>u_name = ''dave'', u_voice_embeddings = [[0, 1]]\<rparr>] 0.65 ''cosine'') = Fl 0.0
   \<and> i_name (identify_speaker (\<lambda>p. Inr [1, 0]) ''probe.wav''
       [\<lparr>u_name = ''alice'', u_voice_embeddings = [[- 1, 0]]\<rparr>,
        \<lparr>u_name = ''dave'', u_voice_embeddings = [[0, 1]]\<rparr>] 0.65 ''cosine'')
       = Some ''Can't hear someone speaking''"
proof -
  let ?alice = "\<lparr>u_name = ''alice'', u_voice_embeddings = [[- 1, 0 :: real]]\<rparr>"
  let ?dave = "\<lparr>u_name = ''dave'', u_voice_embeddings = [[0, 1 :: real]]\<rparr>"
  let ?m = "\<lambda>u. if u_name u = ''alice'' then - 1 else (0 :: real)"
  let ?ext = "\<lambda>p :: string. (Inr [1, 0] :: error + embedding)"
  have ext: "?ext ''probe.wav'' = Inr [1, 0]" by simp
  have ne: "[?alice, ?dave] \<noteq> []" by simp
  have h: "\<forall>u\<in>set [?alice, ?dave].
      \<exists>entry. score_user [1, 0] u ''cosine'' = Inr entry \<and> s_avg_score entry = Fl (?m u)"
    by (simp add: score_user_minus score_user_zero)
  have le: "\<forall>u\<in>set [?alice, ?dave]. ?m u \<le> 0" by simp
  show ?thesis
    using identify_nonpositive_means [of "[?alice, ?dave]" ?ext "''probe.wav''" "[1, 0]"
        "''cosine''" ?m "0.65", OF ne ext h le]
    by simp
qed

end
